theory Spec2Isabelle
  imports Complex_Main "HOL-Library.Char_ord" "HOL-Library.List_Lexorder"
begin

section \<open>Errors and results\<close>

text \<open>
  The exception classes of Python that \<^verbatim>\<open>data_loader.py\<close> raises itself
  (\<^verbatim>\<open>ValueError\<close>), that its subscripts and library calls raise, or that its
  specification names. A computation that may raise returns \<open>py_error + 'a\<close>, with
  \<open>Inl\<close> for the raised exception.
\<close>

datatype py_error =
    ValueError string
  | KeyError string
  | IndexError
  | TypeError
  | FileNotFoundError
  | NotADirectoryError
  | FileExistsError
  | NotImplementedError

fun bind_result :: "py_error + 'a \<Rightarrow> ('a \<Rightarrow> py_error + 'b) \<Rightarrow> py_error + 'b" where
  "bind_result (Inl e) f = Inl e"
| "bind_result (Inr x) f = f x"

text \<open>
  A list comprehension (or a pandas \<^verbatim>\<open>apply\<close>/\<^verbatim>\<open>map\<close>) whose body may raise:
  the elements are processed in order and the first exception ends the whole
  comprehension. On the empty list the body never runs.
\<close>

fun map_result :: "('a \<Rightarrow> py_error + 'b) \<Rightarrow> 'a list \<Rightarrow> py_error + 'b list" where
  "map_result f [] = Inr []"
| "map_result f (x # xs) =
     (case f x of
        Inl e \<Rightarrow> Inl e
      | Inr y \<Rightarrow> (case map_result f xs of Inl e \<Rightarrow> Inl e | Inr ys \<Rightarrow> Inr (y # ys)))"

section \<open>The numpy operations used by the pooling reducer\<close>

text \<open>
  \<^verbatim>\<open>np.transpose\<close> of a list of rows, followed by iteration over the result.
  A rectangular \<open>T \<times> D\<close> input gives the \<open>D\<close> columns, each of length \<open>T\<close>;
  no rows, or rows of dimension zero, give nothing to iterate over. Rows of different
  lengths do not form a two-dimensional array: numpy refuses them (from version 1.24
  with a \<^verbatim>\<open>ValueError\<close>), which is what the model returns.
\<close>

definition np_transpose :: "'a list list \<Rightarrow> py_error + 'a list list" where
  "np_transpose m =
     (case m of
        [] \<Rightarrow> Inr []
      | r # rs \<Rightarrow>
          if list_all (\<lambda>x. length x = length r) rs
          then Inr (map (\<lambda>d. map (\<lambda>row. row ! d) m) [0..<length r])
          else Inl (ValueError ''inhomogeneous shape''))"

text \<open>
  \<^verbatim>\<open>row.max()\<close>, \<^verbatim>\<open>row.min()\<close> and \<^verbatim>\<open>np.average(row)\<close>. The extrema of
  an empty array raise \<^verbatim>\<open>ValueError\<close>. Numbers are modelled as elements of an
  ordered field, so the mean is exact; the mean of an empty row (numpy's \<^verbatim>\<open>nan\<close>)
  has no value there and is a failure of the model. No row that \<open>np_transpose\<close>
  returns is empty, so the pooling reducer reaches neither case.
\<close>

definition np_max :: "'a::linorder list \<Rightarrow> py_error + 'a" where
  "np_max row =
     (case row of
        [] \<Rightarrow> Inl (ValueError ''zero-size array to reduction operation maximum'')
      | x # xs \<Rightarrow> Inr (fold max xs x))"

definition np_min :: "'a::linorder list \<Rightarrow> py_error + 'a" where
  "np_min row =
     (case row of
        [] \<Rightarrow> Inl (ValueError ''zero-size array to reduction operation minimum'')
      | x # xs \<Rightarrow> Inr (fold min xs x))"

definition np_average :: "'a::linordered_field list \<Rightarrow> py_error + 'a" where
  "np_average row =
     (case row of
        [] \<Rightarrow> Inl (ValueError ''mean of empty slice'')
      | x # xs \<Rightarrow> Inr (sum_list row / of_nat (length row)))"

section \<open>The pooling reducer\<close>

text \<open>
  \<^verbatim>\<open>[red(token_row) for token_row in np.transpose(sentence)]\<close>: one value per
  dimension.
\<close>

definition reduce_rows ::
  "('a list \<Rightarrow> py_error + 'a) \<Rightarrow> 'a list list \<Rightarrow> py_error + 'a list" where
  "reduce_rows red sentence = bind_result (np_transpose sentence) (map_result red)"

text \<open>
  The body shared by the three branches of \<^verbatim>\<open>pooling\<close>, which differ in the
  reduction only: with more than one sentence each sentence is reduced and the
  per-sentence vectors are reduced again; otherwise \<^verbatim>\<open>vector[0]\<close> is reduced, and
  an empty \<^verbatim>\<open>vector\<close> raises \<^verbatim>\<open>IndexError\<close>.
\<close>

definition pool_with ::
  "('a list \<Rightarrow> py_error + 'a) \<Rightarrow> 'a list list list \<Rightarrow> py_error + 'a list" where
  "pool_with red vector =
     (if length vector > 1
      then bind_result (map_result (reduce_rows red) vector) (reduce_rows red)
      else (case vector of
              [] \<Rightarrow> Inl IndexError
            | sentence # _ \<Rightarrow> reduce_rows red sentence))"

text \<open>The message of the exception that \<^verbatim>\<open>pooling\<close> raises.\<close>

definition not_implemented_message :: string where
  "not_implemented_message =
     ''This pooling technique has not been implemented. Please only use 'min', 'max' or 'average' as keywords.''"

definition pooling ::
  "string \<Rightarrow> 'a::linordered_field list list list \<Rightarrow> py_error + 'a list" where
  "pooling technique vector =
     (if technique = ''max'' then pool_with np_max vector
      else if technique = ''min'' then pool_with np_min vector
      else if technique = ''average'' then pool_with np_average vector
      else Inl (ValueError not_implemented_message))"

text \<open>
  A row of the table: the columns \<^verbatim>\<open>name\<close> and \<^verbatim>\<open>type\<close> that the loader
  creates, and the \<^verbatim>\<open>embedding\<close> column that the encoder adds.
\<close>

record name_record =
  name :: string
  type :: string

record 'e embedded_record = name_record +
  embedding :: 'e

text \<open>
  \<^verbatim>\<open>apply_pooling\<close>: the new column is computed in full before it is assigned
  to \<^verbatim>\<open>df.embedding\<close>. An exception in \<^verbatim>\<open>pooling\<close> therefore leaves the
  caller's table as it was: the failure is returned together with that table.
\<close>

definition apply_pooling ::
  "string \<Rightarrow> 'a::linordered_field list list list embedded_record list \<Rightarrow>
     (py_error \<times> 'a list list list embedded_record list) + 'a list embedded_record list" where
  "apply_pooling technique df =
     (case map_result (pooling technique) (map embedding df) of
        Inl e \<Rightarrow> Inl (e, df)
      | Inr pooled \<Rightarrow>
          Inr (map (\<lambda>(r, v). \<lparr>name = name r, type = type r, embedding = v\<rparr>) (zip df pooled)))"

section \<open>The dataset loader\<close>

text \<open>
  The parsed JSON file: a dictionary from document identifiers to metadata, in the
  order of the file. A metadata dictionary may lack any of its keys; a key that is
  present holds a string (\<^verbatim>\<open>lang\<close>) or a list of strings.
\<close>

record metadata =
  lang :: "string option"
  classes :: "string list option"
  attributes :: "string list option"

type_synonym dataset = "(string \<times> metadata) list"

text \<open>
  \<^verbatim>\<open>get_cleaned_data\<close>, from the parsed file on: the dictionary comprehension
  reads \<^verbatim>\<open>data[file]['lang']\<close> of every document, which raises
  \<^verbatim>\<open>KeyError\<close> at a document without that key.
\<close>

fun get_cleaned_data :: "dataset \<Rightarrow> py_error + dataset" where
  "get_cleaned_data [] = Inr []"
| "get_cleaned_data ((file, md) # rest) =
     (case lang md of
        None \<Rightarrow> Inl (KeyError ''lang'')
      | Some l \<Rightarrow>
          (case get_cleaned_data rest of
             Inl e \<Rightarrow> Inl e
           | Inr english_data \<Rightarrow>
               Inr (if l = ''__label__en'' then (file, md) # english_data else english_data)))"

definition flatten :: "'a list list \<Rightarrow> 'a list" where
  "flatten t = concat t"

text \<open>
  \<^verbatim>\<open>np.unique\<close>: the sorted unique elements of an array. An array of strings is
  ordered lexicographically by character code, as lists of characters are here.
\<close>

definition np_unique :: "'a::linorder list \<Rightarrow> 'a list" where
  "np_unique ar = sort (remdups ar)"

definition get_df_from_data :: "dataset \<Rightarrow> name_record list" where
  "get_df_from_data data =
     (let all_classes = List.map_filter (\<lambda>(file, md). classes md) data;
          all_attrs = List.map_filter (\<lambda>(file, md). attributes md) data
      in map (\<lambda>x. \<lparr>name = x, type = ''class''\<rparr>) (np_unique (flatten all_classes)) @
         map (\<lambda>x. \<lparr>name = x, type = ''attribute''\<rparr>) (np_unique (flatten all_attrs)))"

text \<open>
  The two steps of \<^verbatim>\<open>DataLoader.__init__\<close> that build the table:
  \<^verbatim>\<open>self.data = self.get_cleaned_data()\<close>, then
  \<^verbatim>\<open>self.df = self.get_df_from_data()\<close>.
\<close>

definition loader_table :: "dataset \<Rightarrow> py_error + name_record list" where
  "loader_table json = bind_result (get_cleaned_data json) (\<lambda>data. Inr (get_df_from_data data))"

section \<open>The encoders\<close>

datatype encoder_class = GeneralEncoder | FlairEncoder | FastTextEncoder | Word2VecEncoder

text \<open>\<^verbatim>\<open>s.split(sep)\<close> for a separator of one character.\<close>

fun py_split :: "char \<Rightarrow> string \<Rightarrow> string list" where
  "py_split sep [] = [[]]"
| "py_split sep (c # cs) =
     (if c = sep then [] # py_split sep cs
      else (case py_split sep cs of
              [] \<Rightarrow> [[c]]
            | segment # segments \<Rightarrow> (c # segment) # segments))"

text \<open>
  \<^verbatim>\<open>GeneralEncoder.get_embedding_dir\<close>. The constructor's default for
  \<^verbatim>\<open>embedding\<close> is \<^verbatim>\<open>None\<close>, on which the test \<^verbatim>\<open>'/' in embedding\<close>
  raises \<^verbatim>\<open>TypeError\<close>.
\<close>

definition get_embedding_dir_General :: "string option \<Rightarrow> py_error + string" where
  "get_embedding_dir_General emb =
     (case emb of
        None \<Rightarrow> Inl TypeError
      | Some e \<Rightarrow>
          if CHR ''/'' \<in> set e
          then (case py_split CHR ''/'' e of
                  _ # segment # _ \<Rightarrow> Inr segment
                | _ \<Rightarrow> Inl IndexError)
          else Inr e)"

text \<open>
  Method dispatch: \<^verbatim>\<open>FastTextEncoder\<close> and \<^verbatim>\<open>Word2VecEncoder\<close> override
  \<^verbatim>\<open>get_embedding_dir\<close>, \<^verbatim>\<open>FlairEncoder\<close> inherits it.
\<close>

fun get_embedding_dir :: "encoder_class \<Rightarrow> string option \<Rightarrow> py_error + string" where
  "get_embedding_dir FastTextEncoder emb = Inr ''fasttext''"
| "get_embedding_dir Word2VecEncoder emb = Inr ''word2vec''"
| "get_embedding_dir FlairEncoder emb = get_embedding_dir_General emb"
| "get_embedding_dir GeneralEncoder emb = get_embedding_dir_General emb"

text \<open>
  The objects that \<^verbatim>\<open>get_embedder\<close> constructs are library objects
  (transformers, flair, gensim). They are modelled by the constructor call that
  creates them, with its arguments; the construction itself is taken to succeed.
  The vocabulary argument of the gensim models stands for the token lists of all
  names before numpy flattens them.
\<close>

datatype hf_class =
  TransfoXLModel | TransfoXLTokenizer | XLMModel | XLMTokenizer | XLNetModel | XLNetTokenizer

datatype pretrained = from_pretrained hf_class string

datatype embedder =
    Dict (model: pretrained) (tokenizer: pretrained)
  | TransformerWordEmbeddings "string option"
  | FastText "string list list"
  | Word2Vec "string list list"

text \<open>
  What the libraries compute is a parameter of the model: sentence and word
  tokenisation (nltk), the token vectors of one sentence under a Huggingface model
  and tokenizer, under a flair embedding, and the vector of one token in a gensim
  model.
\<close>

record 'v libs =
  sent_tokenize :: "string \<Rightarrow> string list"
  word_tokenize :: "string \<Rightarrow> string list"
  last_hidden_states :: "pretrained \<Rightarrow> pretrained \<Rightarrow> string \<Rightarrow> py_error + 'v list"
  flair_embed :: "embedder \<Rightarrow> string \<Rightarrow> py_error + 'v list"
  wv_get_vector :: "embedder \<Rightarrow> string \<Rightarrow> py_error + 'v"

text \<open>
  The fields of an encoder object that its methods read: its class, and
  \<^verbatim>\<open>self.embedding\<close> and \<^verbatim>\<open>self.df\<close>.
\<close>

record encoder =
  cls :: encoder_class
  self_embedding :: "string option"
  self_df :: "name_record list"

definition get_embedder_General :: "py_error + embedder" where
  "get_embedder_General =
     Inl (ValueError ''This function should be implemented in the children encoders'')"

definition create_embedding_General :: "string \<Rightarrow> embedder \<Rightarrow> py_error + 'v list list" where
  "create_embedding_General statement embedder =
     Inl (ValueError ''This function should be implemented in the children encoders'')"

definition get_embedder_Flair :: "string option \<Rightarrow> embedder" where
  "get_embedder_Flair emb =
     (if emb = Some ''transfo-xl-wt103'' then
        Dict (from_pretrained TransfoXLModel ''transfo-xl-wt103'')
             (from_pretrained TransfoXLTokenizer ''transfo-xl-wt103'')
      else if emb = Some ''xlm-mlm-en-2048'' then
        Dict (from_pretrained XLMModel ''transfo-xl-wt103'')
             (from_pretrained XLMTokenizer ''transfo-xl-wt103'')
      else if emb = Some ''xlnet-base-cased'' then
        Dict (from_pretrained XLNetModel ''transfo-xl-wt103'')
             (from_pretrained XLNetTokenizer ''transfo-xl-wt103'')
      else TransformerWordEmbeddings emb)"

definition get_embedder :: "'v libs \<Rightarrow> encoder \<Rightarrow> py_error + embedder" where
  "get_embedder lib self =
     (case cls self of
        GeneralEncoder \<Rightarrow> get_embedder_General
      | FlairEncoder \<Rightarrow> Inr (get_embedder_Flair (self_embedding self))
      | FastTextEncoder \<Rightarrow> Inr (FastText (map (word_tokenize lib) (map name (self_df self))))
      | Word2VecEncoder \<Rightarrow> Inr (Word2Vec (map (word_tokenize lib) (map name (self_df self)))))"

definition create_embedding ::
  "'v libs \<Rightarrow> encoder_class \<Rightarrow> string \<Rightarrow> embedder \<Rightarrow> py_error + 'v list list" where
  "create_embedding lib c statement embedder =
     (case c of
        GeneralEncoder \<Rightarrow> create_embedding_General statement embedder
      | FlairEncoder \<Rightarrow>
          map_result
            (\<lambda>sentence.
               case embedder of
                 Dict m t \<Rightarrow> last_hidden_states lib m t sentence
               | _ \<Rightarrow> flair_embed lib embedder sentence)
            (sent_tokenize lib statement)
      | _ \<Rightarrow>
          map_result
            (\<lambda>sentence. map_result (wv_get_vector lib embedder) (word_tokenize lib sentence))
            (sent_tokenize lib statement))"

section \<open>The cache and \<^verbatim>\<open>get_embedded_dataset\<close>\<close>

text \<open>
  The directory \<^verbatim>\<open>data_dir\<close>: a map from the names that \<^verbatim>\<open>os.listdir\<close>
  returns to what is stored under them, which is a regular file, or a directory
  together with the table pickled in its \<^verbatim>\<open>data.pkl\<close> if that file exists.
\<close>

datatype 't entry = File | Dir "'t option"

text \<open>
  The calls of the two backend methods are recorded, in order, beside the
  directory: they are the embedding computations that a cached table saves.
\<close>

datatype call = GetEmbedder | CreateEmbedding string

record 't world =
  listdir :: "string \<rightharpoonup> 't entry"
  calls :: "call list"

text \<open>\<^verbatim>\<open>pd.read_pickle(os.path.join(data_dir, embedding_dir, 'data.pkl'))\<close>\<close>

definition read_pickle :: "(string \<rightharpoonup> 't entry) \<Rightarrow> string \<Rightarrow> py_error + 't" where
  "read_pickle fs embedding_dir =
     (case fs embedding_dir of
        None \<Rightarrow> Inl FileNotFoundError
      | Some File \<Rightarrow> Inl NotADirectoryError
      | Some (Dir None) \<Rightarrow> Inl FileNotFoundError
      | Some (Dir (Some table)) \<Rightarrow> Inr table)"

text \<open>
  \<^verbatim>\<open>os.mkdir(os.path.join(data_dir, embedding_dir))\<close>. The empty name and the
  names \<^verbatim>\<open>.\<close> and \<^verbatim>\<open>..\<close> are never listed, yet the paths made from
  them exist.
\<close>

definition mkdir ::
  "(string \<rightharpoonup> 't entry) \<Rightarrow> string \<Rightarrow> py_error + (string \<rightharpoonup> 't entry)" where
  "mkdir fs embedding_dir =
     (if embedding_dir \<in> dom fs \<or> embedding_dir \<in> {'''', ''.'', ''..''}
      then Inl FileExistsError
      else Inr (fs(embedding_dir \<mapsto> Dir None)))"

text \<open>\<^verbatim>\<open>df.to_pickle(os.path.join(data_dir, embedding_dir, 'data.pkl'))\<close>\<close>

definition to_pickle ::
  "(string \<rightharpoonup> 't entry) \<Rightarrow> string \<Rightarrow> 't \<Rightarrow> py_error + (string \<rightharpoonup> 't entry)" where
  "to_pickle fs embedding_dir table =
     (case fs embedding_dir of
        None \<Rightarrow> Inl FileNotFoundError
      | Some File \<Rightarrow> Inl NotADirectoryError
      | Some (Dir _) \<Rightarrow> Inr (fs(embedding_dir \<mapsto> Dir (Some table))))"

text \<open>
  \<^verbatim>\<open>df['name'].progress_map(f)\<close>: the names are embedded in order, every call
  is recorded, and the first exception ends the pass.
\<close>

fun progress_map ::
  "(string \<Rightarrow> py_error + 'e) \<Rightarrow> string list \<Rightarrow> (py_error + 'e list) \<times> call list" where
  "progress_map f [] = (Inr [], [])"
| "progress_map f (text # texts) =
     (case f text of
        Inl e \<Rightarrow> (Inl e, [CreateEmbedding text])
      | Inr v \<Rightarrow>
          (case progress_map f texts of
             (Inl e, cs) \<Rightarrow> (Inl e, CreateEmbedding text # cs)
           | (Inr vs, cs) \<Rightarrow> (Inr (v # vs), CreateEmbedding text # cs)))"

text \<open>
  The inner function \<^verbatim>\<open>encode_datasets\<close>. After the embeddings are attached,
  \<^verbatim>\<open>print(df.iloc[0])\<close> raises \<^verbatim>\<open>IndexError\<close> on a table without rows.
\<close>

definition encode_datasets ::
  "'v libs \<Rightarrow> encoder \<Rightarrow> bool \<Rightarrow> string \<Rightarrow> 'v list list embedded_record list world \<Rightarrow>
     (py_error + 'v list list embedded_record list) \<times> 'v list list embedded_record list world" where
  "encode_datasets lib self save embedding_dir w =
     (if embedding_dir \<in> dom (listdir w)
      then (read_pickle (listdir w) embedding_dir, w)
      else
        (let w1 = w\<lparr>calls := calls w @ [GetEmbedder]\<rparr> in
         case get_embedder lib self of
           Inl e \<Rightarrow> (Inl e, w1)
         | Inr embedder \<Rightarrow>
             (case progress_map (\<lambda>text. create_embedding lib (cls self) text embedder)
                     (map name (self_df self)) of
                (Inl e, cs) \<Rightarrow> (Inl e, w1\<lparr>calls := calls w1 @ cs\<rparr>)
              | (Inr vectors, cs) \<Rightarrow>
                  (let w2 = w1\<lparr>calls := calls w1 @ cs\<rparr>;
                       df = map (\<lambda>(r, v). \<lparr>name = name r, type = type r, embedding = v\<rparr>)
                              (zip (self_df self) vectors)
                   in if df = [] then (Inl IndexError, w2)
                      else if save then
                        (case (if embedding_dir \<notin> dom (listdir w2)
                               then mkdir (listdir w2) embedding_dir
                               else Inr (listdir w2)) of
                           Inl e \<Rightarrow> (Inl e, w2)
                         | Inr fs1 \<Rightarrow>
                             (case to_pickle fs1 embedding_dir df of
                                Inl e \<Rightarrow> (Inl e, w2\<lparr>listdir := fs1\<rparr>)
                              | Inr fs2 \<Rightarrow> (Inr df, w2\<lparr>listdir := fs2\<rparr>)))
                      else (Inr df, w2)))))"

definition get_embedded_dataset ::
  "'v libs \<Rightarrow> encoder \<Rightarrow> bool \<Rightarrow> 'v list list embedded_record list world \<Rightarrow>
     (py_error + 'v list list embedded_record list) \<times> 'v list list embedded_record list world" where
  "get_embedded_dataset lib self save w =
     (case get_embedding_dir (cls self) (self_embedding self) of
        Inl e \<Rightarrow> (Inl e, w)
      | Inr embedding_dir \<Rightarrow> encode_datasets lib self save embedding_dir w)"

section \<open>Notions of the specification\<close>

text \<open>
  An embedding as the pooling reducer expects it: at least one sentence, no sentence
  without tokens, and all token vectors of one dimension.
\<close>

definition well_formed :: "'a list list list \<Rightarrow> bool" where
  "well_formed vector \<longleftrightarrow>
     vector \<noteq> [] \<and>
     list_all (\<lambda>sentence. sentence \<noteq> [] \<and>
        list_all (\<lambda>token. length token = length (hd (hd vector))) sentence) vector"

text \<open>The reduction that a pooling technique names: extremum or arithmetic mean.\<close>

definition reduction :: "string \<Rightarrow> 'a::linordered_field list \<Rightarrow> 'a" where
  "reduction technique values =
     (if technique = ''max'' then Max (set values)
      else if technique = ''min'' then Min (set values)
      else sum_list values / of_nat (length values))"

text \<open>The values of all vectors of a list at dimension \<open>d\<close>.\<close>

definition at_dimension :: "nat \<Rightarrow> 'a list list \<Rightarrow> 'a list" where
  "at_dimension d vectors = map (\<lambda>v. v ! d) vectors"

text \<open>
  The pooled vector in the words of the specification: with exactly one sentence, the
  reduction over its tokens per dimension; otherwise the reduction, per dimension, over
  the per-sentence reductions.
\<close>

definition pooled :: "string \<Rightarrow> 'a::linordered_field list list list \<Rightarrow> 'a list" where
  "pooled technique vector =
     (if length vector = 1
      then map (\<lambda>d. reduction technique (at_dimension d (hd vector)))
             [0..<length (hd (hd vector))]
      else map (\<lambda>d. reduction technique
                  (map (\<lambda>sentence. reduction technique (at_dimension d sentence)) vector))
             [0..<length (hd (hd vector))])"

text \<open>
  A technique name with its namespace prefix stripped: what follows the first
  \<^verbatim>\<open>/\<close> of the name.
\<close>

definition strip_namespace_prefix :: "string \<Rightarrow> string" where
  "strip_namespace_prefix e = drop 1 (dropWhile (\<lambda>c. c \<noteq> CHR ''/'') e)"

text \<open>
  The names that the documents of a dataset list under one of the two keys, and the
  documents with a given language tag.
\<close>

definition names_under :: "(metadata \<Rightarrow> string list option) \<Rightarrow> dataset \<Rightarrow> string set" where
  "names_under key data =
     (\<Union>(file, md) \<in> set data. case key md of None \<Rightarrow> {} | Some names \<Rightarrow> set names)"

definition tagged :: "string \<Rightarrow> dataset \<Rightarrow> dataset" where
  "tagged l data = filter (\<lambda>(file, md). lang md = Some l) data"

text \<open>
  A stand-in for the libraries, used to run the encoders on concrete tables: every
  text is one sentence of one token, and the vector of a token is its length.
\<close>

definition toy_libs :: "nat list libs" where
  "toy_libs =
     \<lparr>sent_tokenize = (\<lambda>s. [s]),
      word_tokenize = (\<lambda>s. [s]),
      last_hidden_states = (\<lambda>m t s. Inr [[length s]]),
      flair_embed = (\<lambda>e s. Inr [[length s]]),
      wv_get_vector = (\<lambda>e s. Inr [length s])\<rparr>"

section \<open>Properties of the pooling reducer\<close>

lemma map_result_map:
  "(\<And>x. x \<in> set xs \<Longrightarrow> f x = Inr (g x)) \<Longrightarrow> map_result f xs = Inr (map g xs)"
  by (induction xs) simp_all

lemma map_result_Inr_nth:
  "map_result f xs = Inr ys \<Longrightarrow>
     length ys = length xs \<and> (\<forall>i<length xs. f (xs ! i) = Inr (ys ! i))"
proof (induction xs arbitrary: ys)
  case Nil
  then show ?case by simp
next
  case (Cons x xs)
  from Cons.prems obtain y ys' where
    y: "f x = Inr y" and ys': "map_result f xs = Inr ys'" and ys: "ys = y # ys'"
    by (auto split: sum.splits)
  from Cons.IH [OF ys'] y ys show ?case
    by (auto simp: nth_Cons split: nat.splits)
qed

lemma np_transpose_rectangular:
  assumes "m \<noteq> []" and "\<And>r. r \<in> set m \<Longrightarrow> length r = D"
  shows "np_transpose m = Inr (map (\<lambda>d. at_dimension d m) [0..<D])"
proof -
  obtain r rs where m: "m = r # rs" using assms(1) by (cases m) auto
  have "length r = D" using assms(2) m by simp
  moreover have "list_all (\<lambda>x. length x = length r) rs"
    using assms(2) m by (simp add: list_all_iff)
  ultimately show ?thesis
    by (simp add: np_transpose_def m at_dimension_def)
qed

lemma np_max_nonempty: "row \<noteq> [] \<Longrightarrow> np_max row = Inr (reduction ''max'' row)"
  by (cases row)
    (simp_all add: np_max_def reduction_def Max.set_eq_fold [symmetric] del: set_simps)

lemma np_min_nonempty: "row \<noteq> [] \<Longrightarrow> np_min row = Inr (reduction ''min'' row)"
  by (cases row)
    (simp_all add: np_min_def reduction_def Min.set_eq_fold [symmetric] del: set_simps)

lemma np_average_nonempty: "row \<noteq> [] \<Longrightarrow> np_average row = Inr (reduction ''average'' row)"
  by (cases row) (simp_all add: np_average_def reduction_def)

lemma reduce_rows_rectangular:
  assumes "m \<noteq> []" and "\<And>r. r \<in> set m \<Longrightarrow> length r = D"
    and red: "\<And>row. row \<noteq> [] \<Longrightarrow> red row = Inr (f row)"
  shows "reduce_rows red m = Inr (map (\<lambda>d. f (at_dimension d m)) [0..<D])"
proof -
  have "map_result red (map (\<lambda>d. at_dimension d m) [0..<D])
          = Inr (map f (map (\<lambda>d. at_dimension d m) [0..<D]))"
    by (rule map_result_map) (use assms(1) in \<open>auto simp: at_dimension_def intro!: red\<close>)
  then show ?thesis
    by (simp add: reduce_rows_def np_transpose_rectangular [OF assms(1,2)] comp_def)
qed

lemma pool_with_well_formed:
  assumes wf: "well_formed vector"
    and red: "\<And>row. row \<noteq> [] \<Longrightarrow> red row = Inr (reduction technique row)"
  shows "pool_with red vector = Inr (pooled technique vector)"
proof -
  define D where "D = length (hd (hd vector))"
  have ne: "vector \<noteq> []" using wf by (simp add: well_formed_def)
  have sent: "\<And>s. s \<in> set vector \<Longrightarrow> s \<noteq> [] \<and> (\<forall>t\<in>set s. length t = D)"
    using wf by (auto simp: well_formed_def list_all_iff D_def)
  have one: "reduce_rows red s = Inr (map (\<lambda>d. reduction technique (at_dimension d s)) [0..<D])"
    if "s \<in> set vector" for s
    using sent [OF that] by (intro reduce_rows_rectangular red) auto
  show ?thesis
  proof (cases "length vector > 1")
    case False
    then obtain s where v: "vector = [s]" using ne by (cases vector) auto
    show ?thesis using one [of s] by (simp add: pool_with_def v pooled_def D_def)
  next
    case True
    let ?per = "map (\<lambda>s. map (\<lambda>d. reduction technique (at_dimension d s)) [0..<D]) vector"
    have first: "map_result (reduce_rows red) vector = Inr ?per"
      by (rule map_result_map) (rule one)
    have second: "reduce_rows red ?per
        = Inr (map (\<lambda>d. reduction technique (at_dimension d ?per)) [0..<D])"
      by (rule reduce_rows_rectangular) (use ne red in auto)
    have "map (\<lambda>d. reduction technique (at_dimension d ?per)) [0..<D]
        = map (\<lambda>d. reduction technique
                  (map (\<lambda>sentence. reduction technique (at_dimension d sentence)) vector)) [0..<D]"
      by (simp add: at_dimension_def comp_def)
    with True first second show ?thesis
      by (simp add: pool_with_def pooled_def D_def)
  qed
qed

lemma pooling_well_formed:
  assumes "technique \<in> {''max'', ''min'', ''average''}" and "well_formed vector"
  shows "pooling technique vector = Inr (pooled technique vector)"
  using assms(1) pool_with_well_formed [OF assms(2), of np_max "''max''"]
    pool_with_well_formed [OF assms(2), of np_min "''min''"]
    pool_with_well_formed [OF assms(2), of np_average "''average''"]
  by (auto simp: pooling_def np_max_nonempty np_min_nonempty np_average_nonempty)

text \<open>
  Claim C1. For each of the techniques \<^verbatim>\<open>max\<close>, \<^verbatim>\<open>min\<close> and \<^verbatim>\<open>average\<close>,
  \<^verbatim>\<open>apply_pooling\<close> on a table whose embeddings are all non-empty lists of non-empty
  sentences of token vectors of one dimension returns the table with every embedding
  replaced by its pooled vector: with one sentence the reduction over the tokens per
  dimension, with several the reduction over the per-sentence reductions. Whenever
  \<^verbatim>\<open>apply_pooling\<close> returns a table, it has the rows of the input, and each row whose
  embedding is of that form holds its pooled vector. Max pooling of
  \<^verbatim>\<open>[[[1,5],[3,2]]]\<close> gives \<^verbatim>\<open>[3,5]\<close>.
\<close>

theorem apply_pooling_reduces:
  assumes tech: "technique \<in> {''max'', ''min'', ''average''}"
  shows "(list_all (\<lambda>r. well_formed (embedding r)) df \<longrightarrow>
            apply_pooling technique df =
              Inr (map (\<lambda>r. \<lparr>name = name r, type = type r,
                              embedding = pooled technique (embedding r)\<rparr>) df)) \<and>
         (\<forall>df'. apply_pooling technique df = Inr df' \<longrightarrow>
            length df' = length df \<and>
            (\<forall>i<length df.
               name (df' ! i) = name (df ! i) \<and> type (df' ! i) = type (df ! i) \<and>
               (well_formed (embedding (df ! i)) \<longrightarrow>
                  embedding (df' ! i) = pooled technique (embedding (df ! i))))) \<and>
         pooling ''max'' [[[1, 5], [3, 2]]] = Inr [3, 5 :: 'a :: linordered_field]"
proof (intro conjI impI allI)
  assume "list_all (\<lambda>r. well_formed (embedding r)) df"
  then have "map_result (pooling technique) (map embedding df)
               = Inr (map (pooled technique) (map embedding df))"
    by (intro map_result_map pooling_well_formed tech) (auto simp: list_all_iff)
  then show "apply_pooling technique df =
      Inr (map (\<lambda>r. \<lparr>name = name r, type = type r,
                      embedding = pooled technique (embedding r)\<rparr>) df)"
    by (simp add: apply_pooling_def zip_map2 zip_same_conv_map comp_def)
next
  fix df' assume ret: "apply_pooling technique df = Inr df'"
  then obtain vs where vs: "map_result (pooling technique) (map embedding df) = Inr vs"
    and df': "df' = map (\<lambda>(r, v). \<lparr>name = name r, type = type r, embedding = v\<rparr>) (zip df vs)"
    by (auto simp: apply_pooling_def split: sum.splits)
  from map_result_Inr_nth [OF vs] have len: "length vs = length df"
    and each: "\<forall>i<length df. pooling technique (embedding (df ! i)) = Inr (vs ! i)"
    by auto
  show "length df' = length df" by (simp add: df' len)
  fix i assume i: "i < length df"
  with len show "name (df' ! i) = name (df ! i)" by (simp add: df')
  from i len show "type (df' ! i) = type (df ! i)" by (simp add: df')
  assume "well_formed (embedding (df ! i))"
  from pooling_well_formed [OF tech this] each i len
  show "embedding (df' ! i) = pooled technique (embedding (df ! i))"
    by (simp add: df')
next
  show "pooling ''max'' [[[1, 5], [3, 2]]] = Inr [3, 5 :: 'a]"
    by (simp add: pooling_def pool_with_def reduce_rows_def np_transpose_def np_max_def)
qed

theorem apply_pooling_reduces_witness:
  "apply_pooling ''average''
     [\<lparr>name = ''Car'', type = ''class'', embedding = [[[1, 5], [3, 2]], [[1, 1]]]\<rparr>,
      \<lparr>name = ''speed'', type = ''attribute'', embedding = [[[4, 0 :: real]]]\<rparr>]
   = Inr [\<lparr>name = ''Car'', type = ''class'', embedding = [3 / 2, 9 / 4]\<rparr>,
          \<lparr>name = ''speed'', type = ''attribute'', embedding = [4, 0]\<rparr>]"
proof -
  have tech: "''average'' \<in> {''max'', ''min'', ''average''}" by simp
  have wf: "list_all (\<lambda>r. well_formed (embedding r))
     [\<lparr>name = ''Car'', type = ''class'', embedding = [[[1, 5], [3, 2]], [[1, 1]]]\<rparr>,
      \<lparr>name = ''speed'', type = ''attribute'', embedding = [[[4, 0 :: real]]]\<rparr>]"
    by (simp add: well_formed_def)
  show ?thesis
    using apply_pooling_reduces [OF tech, THEN conjunct1, rule_format, OF wf]
    by (simp add: pooled_def reduction_def at_dimension_def)
qed

text \<open>
  Claim C6, as amended. For every pooling technique name outside \<^verbatim>\<open>max\<close>,
  \<^verbatim>\<open>min\<close> and \<^verbatim>\<open>average\<close> and every table with at least one row,
  \<^verbatim>\<open>apply_pooling\<close> fails with the \<^verbatim>\<open>ValueError\<close> of \<^verbatim>\<open>pooling\<close> and the
  table is left as it was. The technique is examined when a row is pooled: on a table
  without rows nothing is raised and the empty table is returned.
\<close>

theorem apply_pooling_unsupported:
  assumes "technique \<notin> {''max'', ''min'', ''average''}"
  shows "(df \<noteq> [] \<longrightarrow>
           apply_pooling technique df = Inl (ValueError not_implemented_message, df)) \<and>
         (df = [] \<longrightarrow> apply_pooling technique df = Inr [])"
proof (intro conjI impI)
  assume "df \<noteq> []"
  then obtain r rs where df: "df = r # rs" by (cases df) auto
  from assms show "apply_pooling technique df = Inl (ValueError not_implemented_message, df)"
    by (simp add: apply_pooling_def df pooling_def)
next
  assume "df = []"
  then show "apply_pooling technique df = Inr []" by (simp add: apply_pooling_def)
qed

theorem apply_pooling_unsupported_witness:
  "apply_pooling ''median''
     [\<lparr>name = ''Car'', type = ''class'', embedding = [[[1, 5], [3, 2 :: real]]]\<rparr>]
   = Inl (ValueError not_implemented_message,
       [\<lparr>name = ''Car'', type = ''class'', embedding = [[[1, 5], [3, 2]]]\<rparr>])"
proof -
  have "''median'' \<notin> {''max'', ''min'', ''average''}" by simp
  from apply_pooling_unsupported [OF this, THEN conjunct1,
      of "[\<lparr>name = ''Car'', type = ''class'', embedding = [[[1, 5], [3, 2 :: real]]]\<rparr>]"]
  show ?thesis by simp
qed

text \<open>
  The claim as stated fails on the table without rows: \<^verbatim>\<open>median\<close> pooling of it
  returns, and raises nothing.
\<close>

theorem apply_pooling_empty_table_counterexample:
  "apply_pooling ''median'' ([] :: real list list list embedded_record list) = Inr []"
  by (simp add: apply_pooling_def)

section \<open>Properties of the dataset loader\<close>

lemma get_cleaned_data_Inr:
  "get_cleaned_data json = Inr data \<Longrightarrow> data = tagged ''__label__en'' json"
proof (induction json arbitrary: data)
  case Nil
  then show ?case by (simp add: tagged_def)
next
  case (Cons doc json)
  obtain f md where doc: "doc = (f, md)" by (cases doc)
  from Cons.prems obtain l rest where l: "lang md = Some l"
    and rest: "get_cleaned_data json = Inr rest"
    and data: "data = (if l = ''__label__en'' then (f, md) # rest else rest)"
    by (auto simp: doc split: option.splits sum.splits)
  from Cons.IH [OF rest] l data show ?case
    by (simp add: tagged_def doc)
qed

lemma get_cleaned_data_total:
  "list_all (\<lambda>(file, md). lang md \<noteq> None) json \<Longrightarrow>
     get_cleaned_data json = Inr (tagged ''__label__en'' json)"
proof (induction json)
  case Nil
  then show ?case by (simp add: tagged_def)
next
  case (Cons doc json)
  then show ?case by (cases doc) (auto simp: tagged_def)
qed

lemma get_cleaned_data_KeyError:
  "\<not> list_all (\<lambda>(file, md). lang md \<noteq> None) json \<Longrightarrow>
     get_cleaned_data json = Inl (KeyError ''lang'')"
proof (induction json)
  case Nil
  then show ?case by simp
next
  case (Cons doc json)
  then show ?case by (cases doc) (auto split: option.splits sum.splits)
qed

lemma np_unique_sorted_list_of_set: "np_unique xs = sorted_list_of_set (set xs)"
  by (simp add: np_unique_def sorted_list_of_set_sort_remdups)

lemma set_flatten_map_filter:
  "set (flatten (List.map_filter (\<lambda>(file, md). key md) data)) = names_under key data"
  by (induction data) (auto simp: flatten_def names_under_def List.map_filter_def split: option.splits)

lemma get_df_from_data_eq:
  "get_df_from_data data =
     map (\<lambda>x. \<lparr>name = x, type = ''class''\<rparr>) (sorted_list_of_set (names_under classes data)) @
     map (\<lambda>x. \<lparr>name = x, type = ''attribute''\<rparr>) (sorted_list_of_set (names_under attributes data))"
  by (simp add: get_df_from_data_def np_unique_sorted_list_of_set set_flatten_map_filter)

lemma finite_names_under: "finite (names_under key data)"
  by (auto simp: names_under_def split: option.splits)

lemma loader_table_eq:
  "loader_table json =
     (if list_all (\<lambda>(file, md). lang md \<noteq> None) json
      then Inr (map (\<lambda>x. \<lparr>name = x, type = ''class''\<rparr>)
                  (sorted_list_of_set (names_under classes (tagged ''__label__en'' json))) @
                map (\<lambda>x. \<lparr>name = x, type = ''attribute''\<rparr>)
                  (sorted_list_of_set (names_under attributes (tagged ''__label__en'' json))))
      else Inl (KeyError ''lang''))"
  by (simp add: loader_table_def get_cleaned_data_total get_cleaned_data_KeyError
      get_df_from_data_eq)

text \<open>
  Claim C2. On a dataset in which every document has a \<^verbatim>\<open>lang\<close> key, the loader's
  table is the class names of the documents tagged \<^verbatim>\<open>__label__en\<close>, without
  duplicates and in lexicographic order, each with type \<^verbatim>\<open>class\<close>, followed by the
  attribute names of these documents, without duplicates and in lexicographic order,
  each with type \<^verbatim>\<open>attribute\<close>; a document without the key makes the loader fail.
  The dataset of the specification's example gives the three rows
  \<^verbatim>\<open>Bike\<close>, \<^verbatim>\<open>Car\<close> (classes) and \<^verbatim>\<open>speed\<close> (attribute).
\<close>

theorem loader_table_sorted_unique:
  "loader_table json =
     (if list_all (\<lambda>(file, md). lang md \<noteq> None) json
      then Inr (map (\<lambda>x. \<lparr>name = x, type = ''class''\<rparr>)
                  (sorted_list_of_set (names_under classes (tagged ''__label__en'' json))) @
                map (\<lambda>x. \<lparr>name = x, type = ''attribute''\<rparr>)
                  (sorted_list_of_set (names_under attributes (tagged ''__label__en'' json))))
      else Inl (KeyError ''lang'')) \<and>
   loader_table
     [(''a'', \<lparr>lang = Some ''__label__en'', classes = Some [''Car'', ''Car'', ''Bike''],
              attributes = Some [''speed'']\<rparr>)] =
     Inr [\<lparr>name = ''Bike'', type = ''class''\<rparr>, \<lparr>name = ''Car'', type = ''class''\<rparr>,
          \<lparr>name = ''speed'', type = ''attribute''\<rparr>]"
proof
  show "loader_table json =
     (if list_all (\<lambda>(file, md). lang md \<noteq> None) json
      then Inr (map (\<lambda>x. \<lparr>name = x, type = ''class''\<rparr>)
                  (sorted_list_of_set (names_under classes (tagged ''__label__en'' json))) @
                map (\<lambda>x. \<lparr>name = x, type = ''attribute''\<rparr>)
                  (sorted_list_of_set (names_under attributes (tagged ''__label__en'' json))))
      else Inl (KeyError ''lang''))"
    by (rule loader_table_eq)
  show "loader_table
     [(''a'', \<lparr>lang = Some ''__label__en'', classes = Some [''Car'', ''Car'', ''Bike''],
              attributes = Some [''speed'']\<rparr>)] =
     Inr [\<lparr>name = ''Bike'', type = ''class''\<rparr>, \<lparr>name = ''Car'', type = ''class''\<rparr>,
          \<lparr>name = ''speed'', type = ''attribute''\<rparr>]"
    by (simp add: loader_table_def get_df_from_data_def np_unique_def flatten_def
        List.map_filter_def)
qed

theorem loader_table_sorted_unique_witness:
  "loader_table
     [(''a'', \<lparr>lang = Some ''__label__en'', classes = Some [''b'', ''a''], attributes = None\<rparr>),
      (''b'', \<lparr>lang = Some ''__label__fr'', classes = Some [''c''], attributes = Some [''d'']\<rparr>),
      (''c'', \<lparr>lang = Some ''__label__en'', classes = Some [''a''], attributes = Some [''e'']\<rparr>)] =
     Inr [\<lparr>name = ''a'', type = ''class''\<rparr>, \<lparr>name = ''b'', type = ''class''\<rparr>,
          \<lparr>name = ''e'', type = ''attribute''\<rparr>]"
  using loader_table_sorted_unique [THEN conjunct1, of
     "[(''a'', \<lparr>lang = Some ''__label__en'', classes = Some [''b'', ''a''], attributes = None\<rparr>),
      (''b'', \<lparr>lang = Some ''__label__fr'', classes = Some [''c''], attributes = Some [''d'']\<rparr>),
      (''c'', \<lparr>lang = Some ''__label__en'', classes = Some [''a''], attributes = Some [''e'']\<rparr>)]"]
  by (simp add: names_under_def tagged_def insert_commute)

text \<open>
  Claim C4, as amended. The loader's table has no duplicate row, and no name occurs
  twice among the rows of one type. The two name lists are deduplicated one by one and
  then concatenated: the name column as a whole is free of duplicates exactly when no
  name is both a class name and an attribute name of the documents kept.
\<close>

theorem loader_table_names_unique_per_type:
  assumes "loader_table json = Inr df"
  shows "distinct df \<and>
         distinct (map name (filter (\<lambda>r. type r = ''class'') df)) \<and>
         distinct (map name (filter (\<lambda>r. type r = ''attribute'') df)) \<and>
         (distinct (map name df) \<longleftrightarrow>
            names_under classes (tagged ''__label__en'' json) \<inter>
            names_under attributes (tagged ''__label__en'' json) = {})"
proof -
  let ?cs = "sorted_list_of_set (names_under classes (tagged ''__label__en'' json))"
  let ?as = "sorted_list_of_set (names_under attributes (tagged ''__label__en'' json))"
  from assms have df: "df = map (\<lambda>x. \<lparr>name = x, type = ''class''\<rparr>) ?cs @
                            map (\<lambda>x. \<lparr>name = x, type = ''attribute''\<rparr>) ?as"
    by (simp add: loader_table_eq split: if_splits)
  have names: "map name df = ?cs @ ?as" by (simp add: df comp_def)
  have "distinct df"
    by (auto simp: df distinct_map inj_on_def)
  moreover have "map name (filter (\<lambda>r. type r = ''class'') df) = ?cs"
    by (simp add: df filter_map comp_def)
  moreover have "map name (filter (\<lambda>r. type r = ''attribute'') df) = ?as"
    by (simp add: df filter_map comp_def)
  moreover have "distinct (map name df) \<longleftrightarrow>
            names_under classes (tagged ''__label__en'' json) \<inter>
            names_under attributes (tagged ''__label__en'' json) = {}"
    by (simp add: names finite_names_under)
  ultimately show ?thesis by simp
qed

theorem loader_table_names_unique_per_type_witness:
  "distinct
     [\<lparr>name = ''id'', type = ''class''\<rparr>, \<lparr>name = ''id'', type = ''attribute''\<rparr>] \<and>
   distinct (map name (filter (\<lambda>r. type r = ''class'')
     [\<lparr>name = ''id'', type = ''class''\<rparr>, \<lparr>name = ''id'', type = ''attribute''\<rparr>]))"
proof -
  have "loader_table
     [(''a'', \<lparr>lang = Some ''__label__en'', classes = Some [''id''],
              attributes = Some [''id'']\<rparr>)] =
     Inr [\<lparr>name = ''id'', type = ''class''\<rparr>, \<lparr>name = ''id'', type = ''attribute''\<rparr>]"
    by (simp add: loader_table_def get_df_from_data_def np_unique_def flatten_def
        List.map_filter_def)
  from loader_table_names_unique_per_type [OF this] show ?thesis by blast
qed

text \<open>
  The claim as stated fails on a document that lists \<^verbatim>\<open>id\<close> as a class and as an
  attribute: the name column holds \<^verbatim>\<open>id\<close> twice.
\<close>

theorem loader_table_duplicate_name_counterexample:
  "loader_table
     [(''a'', \<lparr>lang = Some ''__label__en'', classes = Some [''id''],
              attributes = Some [''id'']\<rparr>)] =
     Inr [\<lparr>name = ''id'', type = ''class''\<rparr>, \<lparr>name = ''id'', type = ''attribute''\<rparr>] \<and>
   \<not> distinct (map name
     [\<lparr>name = ''id'', type = ''class''\<rparr>, \<lparr>name = ''id'', type = ''attribute''\<rparr>])"
  by (simp add: loader_table_def get_df_from_data_def np_unique_def flatten_def
      List.map_filter_def)

lemma names_under_tagged:
  "n \<in> names_under key (tagged l json) \<longleftrightarrow>
     (\<exists>(file, md) \<in> set json. lang md = Some l \<and>
        n \<in> (case key md of None \<Rightarrow> {} | Some names \<Rightarrow> set names))"
  by (auto simp: names_under_def tagged_def)

text \<open>
  Claim C5, as amended. Whenever the loader returns a table, it has kept exactly the
  documents whose \<^verbatim>\<open>lang\<close> field equals the string \<^verbatim>\<open>__label__en\<close>, in their
  order; the names of the table are exactly the class and attribute names of these
  documents, so that every name of the table is listed by a document with that tag.
\<close>

theorem get_cleaned_data_keeps_label_en:
  assumes "loader_table json = Inr df"
  shows "get_cleaned_data json = Inr (tagged ''__label__en'' json) \<and>
         name ` set df =
           names_under classes (tagged ''__label__en'' json) \<union>
           names_under attributes (tagged ''__label__en'' json) \<and>
         (\<forall>r \<in> set df. \<exists>(file, md) \<in> set json. lang md = Some ''__label__en'' \<and>
            name r \<in> (case classes md of None \<Rightarrow> {} | Some names \<Rightarrow> set names) \<union>
                     (case attributes md of None \<Rightarrow> {} | Some names \<Rightarrow> set names))"
proof -
  from assms obtain data where data: "get_cleaned_data json = Inr data"
    by (cases "get_cleaned_data json") (simp_all add: loader_table_def)
  then have kept: "get_cleaned_data json = Inr (tagged ''__label__en'' json)"
    using get_cleaned_data_Inr by blast
  from assms have df: "df = get_df_from_data (tagged ''__label__en'' json)"
    by (simp add: loader_table_def kept)
  have names: "name ` set df =
           names_under classes (tagged ''__label__en'' json) \<union>
           names_under attributes (tagged ''__label__en'' json)"
    by (simp add: df get_df_from_data_eq finite_names_under image_Un image_image)
  have "\<exists>(file, md) \<in> set json. lang md = Some ''__label__en'' \<and>
            name r \<in> (case classes md of None \<Rightarrow> {} | Some names \<Rightarrow> set names) \<union>
                     (case attributes md of None \<Rightarrow> {} | Some names \<Rightarrow> set names)"
    if "r \<in> set df" for r
  proof -
    from that names have "name r \<in> names_under classes (tagged ''__label__en'' json) \<or>
        name r \<in> names_under attributes (tagged ''__label__en'' json)"
      by blast
    then show ?thesis
      unfolding names_under_tagged by fastforce
  qed
  with kept names show ?thesis by blast
qed

theorem get_cleaned_data_keeps_label_en_witness:
  "get_cleaned_data
     [(''a'', \<lparr>lang = Some ''__label__en'', classes = Some [''Car''], attributes = None\<rparr>),
      (''b'', \<lparr>lang = Some ''fr'', classes = Some [''Voiture''], attributes = None\<rparr>)] =
   Inr [(''a'', \<lparr>lang = Some ''__label__en'', classes = Some [''Car''], attributes = None\<rparr>)]"
proof -
  have "loader_table
     [(''a'', \<lparr>lang = Some ''__label__en'', classes = Some [''Car''], attributes = None\<rparr>),
      (''b'', \<lparr>lang = Some ''fr'', classes = Some [''Voiture''], attributes = None\<rparr>)] =
     Inr [\<lparr>name = ''Car'', type = ''class''\<rparr>]"
    by (simp add: loader_table_def get_df_from_data_def np_unique_def flatten_def
        List.map_filter_def)
  from get_cleaned_data_keeps_label_en [OF this, THEN conjunct1] show ?thesis
    by (simp add: tagged_def)
qed

text \<open>
  The claim as stated fails: a document whose \<^verbatim>\<open>lang\<close> is the string \<^verbatim>\<open>en\<close> is
  dropped and its names are absent from the table, and a document with another
  \<^verbatim>\<open>lang\<close> value, \<^verbatim>\<open>__label__en\<close>, is kept.
\<close>

theorem get_cleaned_data_en_counterexample:
  "get_cleaned_data
     [(''a'', \<lparr>lang = Some ''en'', classes = Some [''Car''], attributes = None\<rparr>),
      (''b'', \<lparr>lang = Some ''__label__en'', classes = Some [''Bike''], attributes = None\<rparr>)] =
   Inr [(''b'', \<lparr>lang = Some ''__label__en'', classes = Some [''Bike''], attributes = None\<rparr>)] \<and>
   loader_table
     [(''a'', \<lparr>lang = Some ''en'', classes = Some [''Car''], attributes = None\<rparr>),
      (''b'', \<lparr>lang = Some ''__label__en'', classes = Some [''Bike''], attributes = None\<rparr>)] =
   Inr [\<lparr>name = ''Bike'', type = ''class''\<rparr>]"
  by (simp add: loader_table_def get_df_from_data_def np_unique_def flatten_def
      List.map_filter_def)

section \<open>Properties of the encoders\<close>

lemma py_split_nonempty: "py_split sep s \<noteq> []"
  by (induction s) (auto split: list.splits)

lemma py_split_hd: "hd (py_split sep s) = takeWhile (\<lambda>c. c \<noteq> sep) s"
  by (induction s) (auto split: list.splits simp: py_split_nonempty)

lemma py_split_tl: "tl (py_split sep s) =
   (if sep \<in> set s then py_split sep (drop 1 (dropWhile (\<lambda>c. c \<noteq> sep) s)) else [])"
  by (induction s) (auto split: list.splits simp: py_split_nonempty)

lemma py_split_second:
  assumes "sep \<in> set s"
  shows "\<exists>a rest. py_split sep s =
     a # takeWhile (\<lambda>c. c \<noteq> sep) (drop 1 (dropWhile (\<lambda>c. c \<noteq> sep) s)) # rest"
proof -
  let ?r = "drop 1 (dropWhile (\<lambda>c. c \<noteq> sep) s)"
  obtain a t where at: "py_split sep s = a # t"
    using py_split_nonempty [of sep s] by (cases "py_split sep s") auto
  then have "t = py_split sep ?r"
    using py_split_tl [of sep s] assms by simp
  moreover obtain b u where "py_split sep ?r = b # u"
    using py_split_nonempty [of sep ?r] by (cases "py_split sep ?r") auto
  moreover from this have "b = takeWhile (\<lambda>c. c \<noteq> sep) ?r"
    using py_split_hd [of sep ?r] by simp
  ultimately show ?thesis using at by auto
qed

text \<open>
  Claim C8, as amended. For every technique name, the cache key of the general encoder
  (and of the flair encoder, which inherits the method) is the name itself if it
  contains no \<^verbatim>\<open>/\<close>. Otherwise it is the second element of the split at
  \<^verbatim>\<open>/\<close>: the name with its namespace prefix stripped, cut at the next \<^verbatim>\<open>/\<close>.
  The key is the whole stripped name exactly when the name has a single \<^verbatim>\<open>/\<close>.
  The method never fails on a string.
\<close>

theorem get_embedding_dir_second_segment:
  assumes "c \<in> {GeneralEncoder, FlairEncoder}"
  shows "(CHR ''/'' \<notin> set e \<longrightarrow> get_embedding_dir c (Some e) = Inr e) \<and>
         (CHR ''/'' \<in> set e \<longrightarrow>
            get_embedding_dir c (Some e) =
              Inr (takeWhile (\<lambda>x. x \<noteq> CHR ''/'') (strip_namespace_prefix e))) \<and>
         (CHR ''/'' \<in> set e \<longrightarrow>
            (get_embedding_dir c (Some e) = Inr (strip_namespace_prefix e) \<longleftrightarrow>
             CHR ''/'' \<notin> set (strip_namespace_prefix e)))"
proof -
  have dispatch: "get_embedding_dir c (Some e) = get_embedding_dir_General (Some e)"
    using assms by auto
  have without: "get_embedding_dir_General (Some e) = Inr e" if "CHR ''/'' \<notin> set e"
    using that by (simp add: get_embedding_dir_General_def)
  have within: "get_embedding_dir_General (Some e) =
      Inr (takeWhile (\<lambda>x. x \<noteq> CHR ''/'') (strip_namespace_prefix e))"
    if "CHR ''/'' \<in> set e"
  proof -
    from py_split_second [OF that] obtain a rest where
      "py_split CHR ''/'' e =
         a # takeWhile (\<lambda>x. x \<noteq> CHR ''/'') (strip_namespace_prefix e) # rest"
      by (auto simp: strip_namespace_prefix_def)
    with that show ?thesis by (simp add: get_embedding_dir_General_def)
  qed
  have whole: "takeWhile (\<lambda>x. x \<noteq> CHR ''/'') (strip_namespace_prefix e)
        = strip_namespace_prefix e \<longleftrightarrow> CHR ''/'' \<notin> set (strip_namespace_prefix e)"
    by (auto simp: takeWhile_eq_all_conv)
  from without within whole show ?thesis
    by (simp add: dispatch)
qed

theorem get_embedding_dir_second_segment_witness:
  "get_embedding_dir FlairEncoder (Some ''EleutherAI/gpt-neo-1.3B'') = Inr ''gpt-neo-1.3B'' \<and>
   get_embedding_dir FlairEncoder (Some ''gpt2'') = Inr ''gpt2'' \<and>
   get_embedding_dir GeneralEncoder (Some ''./models/bert'') = Inr ''models''"
proof -
  have flair: "FlairEncoder \<in> {GeneralEncoder, FlairEncoder}"
    and general: "GeneralEncoder \<in> {GeneralEncoder, FlairEncoder}"
    by simp_all
  from get_embedding_dir_second_segment [OF flair, of "''EleutherAI/gpt-neo-1.3B''"]
    get_embedding_dir_second_segment [OF flair, of "''gpt2''"]
    get_embedding_dir_second_segment [OF general, of "''./models/bert''"]
  show ?thesis by (simp add: strip_namespace_prefix_def)
qed

text \<open>
  The claim as stated fails on a name with several \<^verbatim>\<open>/\<close>: the key of
  \<^verbatim>\<open>a/b/c\<close> is \<^verbatim>\<open>b\<close>, while the name with its prefix stripped is
  \<^verbatim>\<open>b/c\<close>.
\<close>

theorem get_embedding_dir_several_slashes_counterexample:
  "get_embedding_dir GeneralEncoder (Some ''a/b/c'') = Inr ''b'' \<and>
   strip_namespace_prefix ''a/b/c'' = ''b/c'' \<and>
   get_embedding_dir GeneralEncoder (Some ''a/b/c'') \<noteq> Inr (strip_namespace_prefix ''a/b/c'')"
  by (simp add: get_embedding_dir_General_def strip_namespace_prefix_def)

text \<open>
  Claim C9, as amended. The methods \<^verbatim>\<open>get_embedder\<close> and \<^verbatim>\<open>create_embedding\<close>
  of the base encoder fail on every input, with a \<^verbatim>\<open>ValueError\<close> whose message is
  \<^verbatim>\<open>This function should be implemented in the children encoders\<close>.
\<close>

theorem abstract_methods_raise:
  assumes "cls self = GeneralEncoder"
  shows "get_embedder lib self =
           Inl (ValueError ''This function should be implemented in the children encoders'') \<and>
         create_embedding lib (cls self) statement embedder =
           Inl (ValueError ''This function should be implemented in the children encoders'')"
  using assms
  by (simp add: get_embedder_def get_embedder_General_def create_embedding_def
      create_embedding_General_def)

theorem abstract_methods_raise_witness:
  "get_embedder toy_libs \<lparr>cls = GeneralEncoder, self_embedding = None, self_df = []\<rparr> =
     Inl (ValueError ''This function should be implemented in the children encoders'') \<and>
   create_embedding toy_libs GeneralEncoder ''Car'' (TransformerWordEmbeddings None) =
     Inl (ValueError ''This function should be implemented in the children encoders'')"
  using abstract_methods_raise [of "\<lparr>cls = GeneralEncoder, self_embedding = None, self_df = []\<rparr>"
      toy_libs "''Car''" "TransformerWordEmbeddings None"]
  by simp

text \<open>
  The claim as stated fails: the exception raised is a \<^verbatim>\<open>ValueError\<close>, which is
  not Python's \<^verbatim>\<open>NotImplementedError\<close>.
\<close>

theorem abstract_methods_counterexample:
  "get_embedder toy_libs \<lparr>cls = GeneralEncoder, self_embedding = None, self_df = []\<rparr>
     \<noteq> Inl NotImplementedError \<and>
   create_embedding toy_libs GeneralEncoder ''Car'' (TransformerWordEmbeddings None)
     \<noteq> Inl NotImplementedError"
  by (simp add: get_embedder_def get_embedder_General_def create_embedding_def
      create_embedding_General_def)

text \<open>
  Names outside the three that \<^verbatim>\<open>FlairEncoder.get_embedder\<close> tests for reach the
  last branch, the flair embedding of that name.
\<close>

lemma get_embedder_Flair_fallback:
  "e \<notin> {Some ''transfo-xl-wt103'', Some ''xlm-mlm-en-2048'', Some ''xlnet-base-cased''} \<Longrightarrow>
     get_embedder_Flair e = TransformerWordEmbeddings e"
  by (simp add: get_embedder_Flair_def)

text \<open>
  Claim C7, evaluated where the code departs from it. For the technique names
  \<^verbatim>\<open>xlm-mlm-en-2048\<close> and \<^verbatim>\<open>xlnet-base-cased\<close> the model and the tokenizer are
  loaded under the name \<^verbatim>\<open>transfo-xl-wt103\<close>, not under the technique name.
\<close>

theorem get_embedder_Flair_wrong_name:
  "get_embedder_Flair (Some ''xlm-mlm-en-2048'') =
     Dict (from_pretrained XLMModel ''transfo-xl-wt103'')
          (from_pretrained XLMTokenizer ''transfo-xl-wt103'') \<and>
   get_embedder_Flair (Some ''xlnet-base-cased'') =
     Dict (from_pretrained XLNetModel ''transfo-xl-wt103'')
          (from_pretrained XLNetTokenizer ''transfo-xl-wt103'') \<and>
   get_embedder toy_libs
     \<lparr>cls = FlairEncoder, self_embedding = Some ''xlm-mlm-en-2048'', self_df = []\<rparr> =
     Inr (Dict (from_pretrained XLMModel ''transfo-xl-wt103'')
               (from_pretrained XLMTokenizer ''transfo-xl-wt103''))"
  by (simp add: get_embedder_Flair_def get_embedder_def)

section \<open>Properties of the cache\<close>

lemma encode_datasets_cached:
  "embedding_dir \<in> dom (listdir w) \<Longrightarrow>
     encode_datasets lib self save embedding_dir w = (read_pickle (listdir w) embedding_dir, w)"
  by (simp add: encode_datasets_def)

lemma read_pickle_Inr:
  "read_pickle fs embedding_dir = Inr t \<longleftrightarrow> fs embedding_dir = Some (Dir (Some t))"
  by (auto simp: read_pickle_def split: option.splits entry.splits)

lemma to_pickle_Inr:
  "to_pickle fs embedding_dir t = Inr fs' \<Longrightarrow> fs' embedding_dir = Some (Dir (Some t))"
  by (auto simp: to_pickle_def split: option.splits entry.splits)

lemma encode_datasets_saved:
  assumes "encode_datasets lib self True embedding_dir w = (Inr t, w')"
  shows "listdir w' embedding_dir = Some (Dir (Some t))"
proof (cases "embedding_dir \<in> dom (listdir w)")
  case True
  with assms show ?thesis
    by (auto simp: encode_datasets_cached read_pickle_Inr)
next
  case False
  with assms show ?thesis
    by (auto simp: encode_datasets_def Let_def
        split: sum.splits prod.splits if_splits dest: to_pickle_Inr)
qed

lemma encode_datasets_computes:
  assumes "embedding_dir \<notin> dom (listdir w)"
  shows "\<exists>cs. calls (snd (encode_datasets lib self save embedding_dir w))
           = calls w @ GetEmbedder # cs"
  using assms
  by (auto simp: encode_datasets_def Let_def split: sum.splits prod.splits)

text \<open>
  Claim C3. If the directory of the technique's key is listed in the cache root and
  holds a pickled table, \<^verbatim>\<open>get_embedded_dataset\<close> returns that table and leaves the
  world as it was: no call of \<^verbatim>\<open>get_embedder\<close> or \<^verbatim>\<open>create_embedding\<close> is added
  to the recorded calls and the directory is untouched. Whatever is stored under a
  listed key, the world stays as it was. Hence, after a call with \<^verbatim>\<open>save\<close> that
  returned a table, a second call returns the same table with no further call of the
  backend. By contrast, a call whose key is not listed does call \<^verbatim>\<open>get_embedder\<close>.
\<close>

theorem get_embedded_dataset_cached:
  "(\<forall>key table. get_embedding_dir (cls self) (self_embedding self) = Inr key \<and>
       listdir w key = Some (Dir (Some table)) \<longrightarrow>
       get_embedded_dataset lib self save w = (Inr table, w)) \<and>
   (\<forall>key. get_embedding_dir (cls self) (self_embedding self) = Inr key \<and>
       key \<in> dom (listdir w) \<longrightarrow>
       snd (get_embedded_dataset lib self save w) = w) \<and>
   (\<forall>table w'. get_embedded_dataset lib self True w = (Inr table, w') \<longrightarrow>
       get_embedded_dataset lib self save w' = (Inr table, w')) \<and>
   (\<forall>key. get_embedding_dir (cls self) (self_embedding self) = Inr key \<and>
       key \<notin> dom (listdir w) \<longrightarrow>
       (\<exists>cs. calls (snd (get_embedded_dataset lib self save w)) = calls w @ GetEmbedder # cs))"
proof (intro conjI allI impI; (elim conjE)?)
  fix key table
  assume "get_embedding_dir (cls self) (self_embedding self) = Inr key"
    and "listdir w key = Some (Dir (Some table))"
  then show "get_embedded_dataset lib self save w = (Inr table, w)"
    by (simp add: get_embedded_dataset_def encode_datasets_cached domI read_pickle_def)
next
  fix key
  assume "get_embedding_dir (cls self) (self_embedding self) = Inr key"
    and "key \<in> dom (listdir w)"
  then show "snd (get_embedded_dataset lib self save w) = w"
    by (simp add: get_embedded_dataset_def encode_datasets_cached)
next
  fix table w'
  assume first: "get_embedded_dataset lib self True w = (Inr table, w')"
  then obtain key where key: "get_embedding_dir (cls self) (self_embedding self) = Inr key"
    and enc: "encode_datasets lib self True key w = (Inr table, w')"
    by (auto simp: get_embedded_dataset_def split: sum.splits)
  from encode_datasets_saved [OF enc] have "listdir w' key = Some (Dir (Some table))" .
  with key show "get_embedded_dataset lib self save w' = (Inr table, w')"
    by (simp add: get_embedded_dataset_def encode_datasets_cached domI read_pickle_def)
next
  fix key
  assume "get_embedding_dir (cls self) (self_embedding self) = Inr key"
    and "key \<notin> dom (listdir w)"
  then show "\<exists>cs. calls (snd (get_embedded_dataset lib self save w)) = calls w @ GetEmbedder # cs"
    using encode_datasets_computes [of key w lib self save]
    by (simp add: get_embedded_dataset_def)
qed

lemma toy_first_run:
  "get_embedded_dataset toy_libs
       \<lparr>cls = FlairEncoder, self_embedding = Some ''EleutherAI/gpt-neo-1.3B'',
        self_df = [\<lparr>name = ''Car'', type = ''class''\<rparr>]\<rparr> True
       \<lparr>listdir = Map.empty, calls = []\<rparr> =
     (Inr [\<lparr>name = ''Car'', type = ''class'', embedding = [[[3]]]\<rparr>],
      \<lparr>listdir = [''gpt-neo-1.3B'' \<mapsto>
          Dir (Some [\<lparr>name = ''Car'', type = ''class'', embedding = [[[3]]]\<rparr>])],
       calls = [GetEmbedder, CreateEmbedding ''Car'']\<rparr>)"
  by (simp add: get_embedded_dataset_def encode_datasets_def get_embedder_def
      get_embedder_Flair_def create_embedding_def toy_libs_def mkdir_def to_pickle_def
      get_embedding_dir_General_def Let_def numeral_3_eq_3)

theorem get_embedded_dataset_cached_witness:
  "get_embedded_dataset toy_libs
       \<lparr>cls = FlairEncoder, self_embedding = Some ''EleutherAI/gpt-neo-1.3B'',
        self_df = [\<lparr>name = ''Car'', type = ''class''\<rparr>]\<rparr> False
       \<lparr>listdir = [''gpt-neo-1.3B'' \<mapsto>
          Dir (Some [\<lparr>name = ''Car'', type = ''class'', embedding = [[[3]]]\<rparr>])],
        calls = [GetEmbedder, CreateEmbedding ''Car'']\<rparr> =
     (Inr [\<lparr>name = ''Car'', type = ''class'', embedding = [[[3]]]\<rparr>],
      \<lparr>listdir = [''gpt-neo-1.3B'' \<mapsto>
          Dir (Some [\<lparr>name = ''Car'', type = ''class'', embedding = [[[3]]]\<rparr>])],
       calls = [GetEmbedder, CreateEmbedding ''Car'']\<rparr>)"
  using get_embedded_dataset_cached [THEN conjunct2, THEN conjunct2, THEN conjunct1,
      rule_format, OF toy_first_run]
  by simp

text \<open>
  Claim C10. The cache directory of the FastText encoder is \<^verbatim>\<open>fasttext\<close> and that of
  the Word2Vec encoder is \<^verbatim>\<open>word2vec\<close>, whatever the embedding configuration. Two
  encoders of the same of these two classes therefore share one cache artifact: after a
  saving run of the first that returned a table, a run of the second, with any
  configuration and any table of names, returns the table of the first run and
  computes nothing.
\<close>

theorem fixed_cache_directory:
  "get_embedding_dir FastTextEncoder e = Inr ''fasttext'' \<and>
   get_embedding_dir Word2VecEncoder e = Inr ''word2vec'' \<and>
   (\<forall>table w'. cls self1 = cls self2 \<and> cls self1 \<in> {FastTextEncoder, Word2VecEncoder} \<and>
       get_embedded_dataset lib1 self1 True w = (Inr table, w') \<longrightarrow>
       get_embedded_dataset lib2 self2 save w' = (Inr table, w'))"
proof (intro conjI allI impI; (elim conjE)?)
  fix table w'
  assume same: "cls self1 = cls self2"
    and c: "cls self1 \<in> {FastTextEncoder, Word2VecEncoder}"
    and first: "get_embedded_dataset lib1 self1 True w = (Inr table, w')"
  from c obtain key where k1: "get_embedding_dir (cls self1) (self_embedding self1) = Inr key"
    and k2: "get_embedding_dir (cls self2) (self_embedding self2) = Inr key"
    using same by auto
  from first k1 have "encode_datasets lib1 self1 True key w = (Inr table, w')"
    by (simp add: get_embedded_dataset_def)
  from encode_datasets_saved [OF this] have "listdir w' key = Some (Dir (Some table))" .
  with k2 show "get_embedded_dataset lib2 self2 save w' = (Inr table, w')"
    by (simp add: get_embedded_dataset_def encode_datasets_cached domI read_pickle_def)
qed simp_all

lemma toy_fasttext_run:
  "get_embedded_dataset toy_libs
       \<lparr>cls = FastTextEncoder, self_embedding = None,
        self_df = [\<lparr>name = ''Car'', type = ''class''\<rparr>]\<rparr> True
       \<lparr>listdir = Map.empty, calls = []\<rparr> =
     (Inr [\<lparr>name = ''Car'', type = ''class'', embedding = [[[3]]]\<rparr>],
      \<lparr>listdir = [''fasttext'' \<mapsto>
          Dir (Some [\<lparr>name = ''Car'', type = ''class'', embedding = [[[3]]]\<rparr>])],
       calls = [GetEmbedder, CreateEmbedding ''Car'']\<rparr>)"
  by (simp add: get_embedded_dataset_def encode_datasets_def get_embedder_def
      create_embedding_def toy_libs_def mkdir_def to_pickle_def Let_def numeral_3_eq_3)

theorem fixed_cache_directory_witness:
  "get_embedded_dataset toy_libs
       \<lparr>cls = FastTextEncoder, self_embedding = Some ''another configuration'',
        self_df = [\<lparr>name = ''Bike'', type = ''class''\<rparr>, \<lparr>name = ''speed'', type = ''attribute''\<rparr>]\<rparr>
       True
       \<lparr>listdir = [''fasttext'' \<mapsto>
          Dir (Some [\<lparr>name = ''Car'', type = ''class'', embedding = [[[3]]]\<rparr>])],
        calls = [GetEmbedder, CreateEmbedding ''Car'']\<rparr> =
     (Inr [\<lparr>name = ''Car'', type = ''class'', embedding = [[[3]]]\<rparr>],
      \<lparr>listdir = [''fasttext'' \<mapsto>
          Dir (Some [\<lparr>name = ''Car'', type = ''class'', embedding = [[[3]]]\<rparr>])],
       calls = [GetEmbedder, CreateEmbedding ''Car'']\<rparr>)"
  using fixed_cache_directory [THEN conjunct2, THEN conjunct2, rule_format,
      of "\<lparr>cls = FastTextEncoder, self_embedding = None,
        self_df = [\<lparr>name = ''Car'', type = ''class''\<rparr>]\<rparr>"
         "\<lparr>cls = FastTextEncoder, self_embedding = Some ''another configuration'',
        self_df = [\<lparr>name = ''Bike'', type = ''class''\<rparr>, \<lparr>name = ''speed'', type = ''attribute''\<rparr>]\<rparr>"
         toy_libs]
    toy_fasttext_run
  by simp

end
